theory Spec2Isabelle
  imports Complex_Main "HOL-Library.Multiset"
begin

section \<open>Data model\<close>

text \<open>
  The scoring and stage logic of the recruitment application lives in three React pages:
  the candidate ranking page (\<^verbatim>\<open>CandidateRankingPage\<close>), the candidate detail page
  (\<^verbatim>\<open>CandidateProfilePage\<close>) and the candidate list and dashboard pages, which carry
  copies of \<^verbatim>\<open>getApplicationStage\<close>.

  Numbers. A JavaScript \<^verbatim>\<open>number\<close> read from the store is a finite value and is
  modelled as a \<^typ>\<open>real\<close>; rounding of binary floating point is not modelled. The
  one computed value that can leave the finite numbers is the quotient of a
  \<^verbatim>\<open>reduce\<close> sum by an array length: over an empty array the sum is the start value
  \<^verbatim>\<open>0\<close> and \<^verbatim>\<open>0 / 0\<close> is \<^verbatim>\<open>NaN\<close>. Computed scores therefore have
  the type \<open>jsnum\<close>, a real or \<^verbatim>\<open>NaN\<close>; arithmetic propagates \<^verbatim>\<open>NaN\<close> and
  every comparison with \<^verbatim>\<open>NaN\<close> is false, as in JavaScript.
\<close>

datatype jsnum = Num real | NaN

fun js_add :: "jsnum \<Rightarrow> jsnum \<Rightarrow> jsnum" where
  "js_add (Num a) (Num b) = Num (a + b)"
| "js_add _ _ = NaN"

fun js_mul :: "jsnum \<Rightarrow> jsnum \<Rightarrow> jsnum" where
  "js_mul (Num a) (Num b) = Num (a * b)"
| "js_mul _ _ = NaN"

fun js_ge :: "jsnum \<Rightarrow> real \<Rightarrow> bool" where
  "js_ge (Num a) b = (a \<ge> b)"
| "js_ge NaN b = False"

fun js_le :: "jsnum \<Rightarrow> real \<Rightarrow> bool" where
  "js_le (Num a) b = (a \<le> b)"
| "js_le NaN b = False"

text \<open>
  \<^verbatim>\<open>interview.ai_insights\<close> is untyped JSON; the only member the scoring reads is
  \<^verbatim>\<open>overall_assessment\<close>, an object from category name to number. The object is an
  association list in key order (\<^verbatim>\<open>Object.values\<close> keeps that order); both the
  insights and the assessment may be missing.
\<close>

record insights =
  overall_assessment :: "(string \<times> real) list option"

record interview =
  status :: string
  ai_insights :: "insights option"

text \<open>
  The \<^verbatim>\<open>Application\<close> interface, restricted to the fields the scoring, stage and gate
  logic reads. An absent \<^verbatim>\<open>interviews\<close> member is read by every function below on
  the same branch as the empty array (\<^verbatim>\<open>!x || x.length === 0\<close>, \<^verbatim>\<open>x?.[0]\<close>),
  so the field is a list.
\<close>

record application =
  total_score :: "real option"
  recruitment_task_status :: "string option"
  candidate_decision :: "string option"
  interviews :: "interview list"

text \<open>Truthiness of a \<^verbatim>\<open>number | null\<close> and of a \<^verbatim>\<open>string | null\<close> read from the store.\<close>

fun truthy_num :: "real option \<Rightarrow> bool" where
  "truthy_num None = False"
| "truthy_num (Some x) = (x \<noteq> 0)"

fun truthy_str :: "string option \<Rightarrow> bool" where
  "truthy_str None = False"
| "truthy_str (Some s) = (s \<noteq> [])"

text \<open>\<^verbatim>\<open>x || 0\<close> on a \<^verbatim>\<open>number | null\<close>.\<close>

fun or_zero :: "real option \<Rightarrow> real" where
  "or_zero None = 0"
| "or_zero (Some x) = x"

section \<open>Combined ranking score\<close>

text \<open>\<^verbatim>\<open>interview?.ai_insights?.overall_assessment\<close>\<close>

definition assessment_of :: "interview option \<Rightarrow> (string \<times> real) list option" where
  "assessment_of i = Option.bind (Option.bind i ai_insights) overall_assessment"

text \<open>
  \<^verbatim>\<open>scores.reduce((sum, score) => sum + score, 0) / scores.length\<close>, written inline in
  \<^verbatim>\<open>calculateCombinedScore\<close> and \<^verbatim>\<open>calculateScores\<close> with no test of the length.
\<close>

definition reduce_mean :: "real list \<Rightarrow> jsnum" where
  "reduce_mean scores =
     (if length scores = 0 then NaN
      else Num (foldl (\<lambda>sum score. sum + score) 0 scores / real (length scores)))"

record scores =
  technical :: real
  softSkills :: jsnum
  combined :: jsnum

text \<open>\<^verbatim>\<open>calculateCombinedScore\<close> of the ranking page: the last interview of the list.\<close>

definition calculateCombinedScore :: "application \<Rightarrow> scores" where
  "calculateCombinedScore app =
     (let technicalScore = or_zero (total_score app);
          interview = (if length (interviews app) > 0 then Some (last (interviews app)) else None);
          softSkillsScore =
            (case assessment_of interview of
               Some a \<Rightarrow> js_mul (reduce_mean (map snd a)) (Num 10)
             | None \<Rightarrow> Num 0);
          combinedScore = js_add (Num (technicalScore * 0.65)) (js_mul softSkillsScore (Num 0.35))
      in \<lparr>technical = technicalScore, softSkills = softSkillsScore, combined = combinedScore\<rparr>)"

text \<open>\<^verbatim>\<open>calculateScores\<close> of the detail page: \<^verbatim>\<open>app.interviews?.[0]\<close>, the first interview.\<close>

definition calculateScores :: "application \<Rightarrow> scores" where
  "calculateScores app =
     (let technicalScore = or_zero (total_score app);
          interview = (case interviews app of [] \<Rightarrow> None | i # _ \<Rightarrow> Some i);
          softSkillsScore =
            (case assessment_of interview of
               Some a \<Rightarrow> js_mul (reduce_mean (map snd a)) (Num 10)
             | None \<Rightarrow> Num 0);
          combinedScore = js_add (Num (technicalScore * 0.65)) (js_mul softSkillsScore (Num 0.35))
      in \<lparr>technical = technicalScore, softSkills = softSkillsScore, combined = combinedScore\<rparr>)"

text \<open>
  The combination as the specification words it (section 4.4), for comparison with the two
  functions above: \<open>softSkillsNormalized = (softSkillScore ?? 0) * 10\<close> and
  \<open>combined = technicalScore * 0.65 + softSkillsNormalized * 0.35\<close>.
\<close>

definition spec_softSkillsNormalized :: "jsnum option \<Rightarrow> jsnum" where
  "spec_softSkillsNormalized softSkillScore =
     js_mul (case softSkillScore of None \<Rightarrow> Num 0 | Some s \<Rightarrow> s) (Num 10)"

definition spec_combined :: "real \<Rightarrow> jsnum option \<Rightarrow> jsnum" where
  "spec_combined technicalScore softSkillScore =
     js_add (Num (technicalScore * 0.65)) (js_mul (spec_softSkillsNormalized softSkillScore) (Num 0.35))"

section \<open>Soft-skill aggregation\<close>

text \<open>
  \<^verbatim>\<open>getInterviewScore\<close> of the ranking page, the soft-skill score shown beside the
  badge: \<^verbatim>\<open>null\<close> without an assessment, and the length is tested before dividing.
\<close>

definition getInterviewScore :: "interview \<Rightarrow> real option" where
  "getInterviewScore interview =
     (case assessment_of (Some interview) of
        None \<Rightarrow> None
      | Some a \<Rightarrow>
          (let scores = map snd a
           in if length scores > 0
              then Some (foldl (\<lambda>a b. a + b) 0 scores / real (length scores))
              else None))"

section \<open>Recommendation band\<close>

datatype band = not_recommended | semi_recommended | recommended

text \<open>
  \<^verbatim>\<open>getRecommendationBadge\<close> of the ranking page; the three badge texts are
  "Nie rekomendowany", "Semi-rekomendowany" and "Rekomendowany".
\<close>

definition getRecommendationBadge :: "application \<Rightarrow> band" where
  "getRecommendationBadge app =
     (let scores = calculateCombinedScore app;
          combinedScore = combined scores
      in if js_le combinedScore 20 then not_recommended
         else if js_le combinedScore 50 then semi_recommended
         else recommended)"

text \<open>
  The badge of the detail page, a conditional expression in the markup of
  \<^verbatim>\<open>CandidateProfilePage\<close> over \<^verbatim>\<open>scores = calculateScores(application)\<close>:
  \<^verbatim>\<open>scores.combined >= 50 ? ... : scores.combined >= 20 ? ... : ...\<close>.
\<close>

definition profileRecommendation :: "application \<Rightarrow> band" where
  "profileRecommendation application =
     (let scores = calculateScores application
      in if js_ge (combined scores) 50 then recommended
         else if js_ge (combined scores) 20 then semi_recommended
         else not_recommended)"

section \<open>Pipeline stage\<close>

datatype stage = new_applications | cv_screening | ai_interview | recruitment_task | decision

text \<open>
  \<^verbatim>\<open>getApplicationStage\<close>: the candidate list page, the detail page and the dashboard
  each carry a copy of the same cascade of four tests, in this order.
\<close>

definition getApplicationStage :: "application \<Rightarrow> stage" where
  "getApplicationStage application =
     (if \<not> truthy_num (total_score application) then new_applications
      else if length (interviews application) = 0 then cv_screening
      else if \<not> truthy_str (recruitment_task_status application) then ai_interview
      else if truthy_str (candidate_decision application) then decision
      else recruitment_task)"

section \<open>Gates of the ranking page\<close>

text \<open>
  \<^verbatim>\<open>getTaskStatus\<close>. The member \<^verbatim>\<open>status\<close> of the result is the field
  \<open>task_label\<close> here, since \<open>status\<close> names the interview's field.
\<close>

record task_status =
  canSend :: bool
  task_label :: "string option"

definition getTaskStatus :: "application \<Rightarrow> task_status" where
  "getTaskStatus app =
     (let scores = calculateCombinedScore app;
          isEligible = js_ge (combined scores) 50;
          taskStatus = recruitment_task_status app
      in if \<not> isEligible then \<lparr>canSend = False, task_label = None\<rparr>
         else if \<not> truthy_str taskStatus then \<lparr>canSend = True, task_label = Some ''not_sent''\<rparr>
         else if taskStatus = Some ''task_sent''
           then \<lparr>canSend = False, task_label = Some ''waiting_for_solution''\<rparr>
         else if taskStatus = Some ''task_completed''
           then \<lparr>canSend = False, task_label = Some ''completed''\<rparr>
         else \<lparr>canSend = True, task_label = Some ''not_sent''\<rparr>)"

text \<open>
  \<^verbatim>\<open>getQualificationStatus\<close>; the three results stand for the texts "Nie oceniono",
  "Kwalifikuje sie do AI interview" and "Nie kwalifikuje sie" (diacritics dropped; the
  colour is left out). \<^verbatim>\<open>!score\<close> holds for \<^verbatim>\<open>null\<close> and for \<^verbatim>\<open>0\<close>.
\<close>

datatype qualification = Nie_oceniono | Kwalifikuje_sie | Nie_kwalifikuje_sie

fun getQualificationStatus :: "real option \<Rightarrow> qualification" where
  "getQualificationStatus None = Nie_oceniono"
| "getQualificationStatus (Some score) =
     (if \<not> truthy_num (Some score) then Nie_oceniono
      else if score \<ge> 25 then Kwalifikuje_sie
      else Nie_kwalifikuje_sie)"

text \<open>
  \<^verbatim>\<open>getInterviewStatus\<close>; the labels stand for "Brak rozmowy", "Zakonczona",
  "Zaplanowana", "W trakcie" and "Nieznany status" (diacritics dropped; the colour is left
  out). The parameter \<^verbatim>\<open>interviews\<close> is \<open>interviewList\<close> here, the members
  \<^verbatim>\<open>status\<close> and \<^verbatim>\<open>interview\<close> of the result are the fields \<open>status_label\<close> and
  \<open>latest\<close>.
\<close>

datatype interview_label = Brak_rozmowy | Zakonczona | Zaplanowana | W_trakcie | Nieznany_status

record interview_status =
  status_label :: interview_label
  hasData :: bool
  latest :: "interview option"

definition getInterviewStatus :: "interview list \<Rightarrow> interview_status" where
  "getInterviewStatus interviewList =
     (if length interviewList = 0
      then \<lparr>status_label = Brak_rozmowy, hasData = False, latest = None\<rparr>
      else (let latestInterview = last interviewList
            in if status latestInterview = ''completed''
                 then \<lparr>status_label = Zakonczona, hasData = True, latest = Some latestInterview\<rparr>
               else if status latestInterview = ''scheduled''
                 then \<lparr>status_label = Zaplanowana, hasData = False, latest = None\<rparr>
               else if status latestInterview = ''in_progress''
                 then \<lparr>status_label = W_trakcie, hasData = False, latest = None\<rparr>
               else \<lparr>status_label = Nieznany_status, hasData = False, latest = None\<rparr>))"

text \<open>
  The guard of the "AI Interview" button in the markup of \<^verbatim>\<open>CandidateRankingPage\<close>:
  \<^verbatim>\<open>app.total_score && app.total_score >= 20 && !interviewStatus.hasData\<close>, with
  \<^verbatim>\<open>interviewStatus = getInterviewStatus(app.interviews)\<close>.
\<close>

definition isEligibleForInterview :: "application \<Rightarrow> bool" where
  "isEligibleForInterview app =
     (case total_score app of
        None \<Rightarrow> False
      | Some score \<Rightarrow>
          truthy_num (Some score) \<and> score \<ge> 20
          \<and> \<not> hasData (getInterviewStatus (interviews app)))"

section \<open>Order of the ranking list\<close>

text \<open>
  \<^verbatim>\<open>fetchApplications\<close> sorts the fetched rows with
  \<^verbatim>\<open>(data || []).sort((a, b) => (b.total_score || 0) - (a.total_score || 0))\<close>.
  \<^verbatim>\<open>Array.prototype.sort\<close> is stable: an element goes before another when the comparator
  is negative, and elements that compare equal keep their order. It is modelled as a stable
  insertion sort over the comparator.
\<close>

fun js_insert :: "('a \<Rightarrow> 'a \<Rightarrow> real) \<Rightarrow> 'a \<Rightarrow> 'a list \<Rightarrow> 'a list" where
  "js_insert cmp x [] = [x]"
| "js_insert cmp x (y # ys) = (if cmp x y \<le> 0 then x # y # ys else y # js_insert cmp x ys)"

definition js_sort :: "('a \<Rightarrow> 'a \<Rightarrow> real) \<Rightarrow> 'a list \<Rightarrow> 'a list" where
  "js_sort cmp xs = foldr (js_insert cmp) xs []"

definition sortedData :: "application list \<Rightarrow> application list" where
  "sortedData data = js_sort (\<lambda>a b. or_zero (total_score b) - or_zero (total_score a)) data"

text \<open>Snapshots used as concrete inputs.\<close>

definition interview_with :: "string \<Rightarrow> (string \<times> real) list \<Rightarrow> interview" where
  "interview_with st a = \<lparr>status = st, ai_insights = Some \<lparr>overall_assessment = Some a\<rparr>\<rparr>"

definition app_scored_80 :: application where
  "app_scored_80 = \<lparr>total_score = Some 80, recruitment_task_status = None,
     candidate_decision = None, interviews = []\<rparr>"

definition app_scored_80_interviewed_8 :: application where
  "app_scored_80_interviewed_8 = \<lparr>total_score = Some 80, recruitment_task_status = None,
     candidate_decision = None,
     interviews = [interview_with ''completed'' [(''communication'', 10), (''teamwork'', 6)]]\<rparr>"

definition scored_app :: "real \<Rightarrow> interview list \<Rightarrow> application" where
  "scored_app t ivs = \<lparr>total_score = Some t, recruitment_task_status = None,
     candidate_decision = None, interviews = ivs\<rparr>"

definition app_offered_without_task :: application where
  "app_offered_without_task = \<lparr>total_score = Some 70, recruitment_task_status = None,
     candidate_decision = Some ''offered'',
     interviews = [interview_with ''completed'' [(''communication'', 8)]]\<rparr>"

definition app_offered_after_task :: application where
  "app_offered_after_task = \<lparr>total_score = Some 70, recruitment_task_status = Some ''task_sent'',
     candidate_decision = Some ''offered'',
     interviews = [interview_with ''completed'' [(''communication'', 8)]]\<rparr>"

definition app_scored_zero :: application where
  "app_scored_zero = scored_app 0 []"

definition app_retake :: application where
  "app_retake = scored_app 80
     [interview_with ''completed'' [(''communication'', 4)],
      interview_with ''completed'' [(''communication'', 8)]]"

definition app_empty_assessment :: application where
  "app_empty_assessment = scored_app 80 [interview_with ''completed'' []]"

definition app_combined_50 :: application where
  "app_combined_50 = scored_app 50 [interview_with ''completed'' [(''communication'', 5)]]"

definition app_combined_20 :: application where
  "app_combined_20 = scored_app 20 [interview_with ''completed'' [(''communication'', 2)]]"

text \<open>
  The row \<^verbatim>\<open>startAIInterview\<close> inserts: status \<^verbatim>\<open>scheduled\<close>, insights holding a
  token and a start time but no assessment.
\<close>

definition app_interview_scheduled :: application where
  "app_interview_scheduled = scored_app 70
     [\<lparr>status = ''scheduled'', ai_insights = Some \<lparr>overall_assessment = None\<rparr>\<rparr>]"

definition app_scored_22 :: application where
  "app_scored_22 = scored_app 22 []"

definition app_scored_70_interviewed_10 :: application where
  "app_scored_70_interviewed_10 =
     scored_app 70 [interview_with ''completed'' [(''communication'', 10)]]"

section \<open>Theorems\<close>

text \<open>
  C1. On every application snapshot both pages compute the combined score as
  \<open>technicalScore * 0.65 + softSkillsNormalized * 0.35\<close>, where the technical score is
  \<^verbatim>\<open>total_score || 0\<close>, the soft-skill score is the mean of the assessment of the
  interview the page reads, rescaled by 10, and a missing interview, missing insights or
  missing assessment counts as 0. A score of 80 without interview gives 52; a score of 80
  with a soft-skill mean of 8 gives 80.
\<close>

theorem combined_score_weights:
  "combined (calculateCombinedScore app) =
     spec_combined (or_zero (total_score app))
       (map_option (\<lambda>a. reduce_mean (map snd a))
          (assessment_of (if interviews app = [] then None else Some (last (interviews app)))))
   \<and> combined (calculateScores app) =
     spec_combined (or_zero (total_score app))
       (map_option (\<lambda>a. reduce_mean (map snd a))
          (assessment_of (if interviews app = [] then None else Some (hd (interviews app)))))
   \<and> spec_combined 80 None = Num 52
   \<and> spec_combined 80 (Some (Num 8)) = Num 80
   \<and> combined (calculateCombinedScore app_scored_80) = Num 52
   \<and> combined (calculateCombinedScore app_scored_80_interviewed_8) = Num 80
   \<and> combined (calculateScores app_scored_80) = Num 52
   \<and> combined (calculateScores app_scored_80_interviewed_8) = Num 80"
proof -
  have ranking: "combined (calculateCombinedScore app) =
     spec_combined (or_zero (total_score app))
       (map_option (\<lambda>a. reduce_mean (map snd a))
          (assessment_of (if interviews app = [] then None else Some (last (interviews app)))))"
    by (cases "interviews app = []")
       (simp_all add: calculateCombinedScore_def spec_combined_def spec_softSkillsNormalized_def
          Let_def split: option.splits)
  have detail: "combined (calculateScores app) =
     spec_combined (or_zero (total_score app))
       (map_option (\<lambda>a. reduce_mean (map snd a))
          (assessment_of (if interviews app = [] then None else Some (hd (interviews app)))))"
    by (cases "interviews app")
       (simp_all add: calculateScores_def spec_combined_def spec_softSkillsNormalized_def
          Let_def split: option.splits)
  have s1: "spec_combined 80 None = Num 52"
    by (simp add: spec_combined_def spec_softSkillsNormalized_def)
  have s2: "spec_combined 80 (Some (Num 8)) = Num 80"
    by (simp add: spec_combined_def spec_softSkillsNormalized_def)
  have e1: "combined (calculateCombinedScore app_scored_80) = Num 52"
    by (simp add: calculateCombinedScore_def app_scored_80_def assessment_of_def)
  have e2: "combined (calculateCombinedScore app_scored_80_interviewed_8) = Num 80"
    by (simp add: calculateCombinedScore_def app_scored_80_interviewed_8_def assessment_of_def
          interview_with_def reduce_mean_def)
  have e3: "combined (calculateScores app_scored_80) = Num 52"
    by (simp add: calculateScores_def app_scored_80_def assessment_of_def)
  have e4: "combined (calculateScores app_scored_80_interviewed_8) = Num 80"
    by (simp add: calculateScores_def app_scored_80_interviewed_8_def assessment_of_def
          interview_with_def reduce_mean_def)
  from ranking detail s1 s2 e1 e2 e3 e4 show ?thesis by blast
qed


text \<open>
  C2. A present \<^verbatim>\<open>candidate_decision\<close> gives the stage \<open>decision\<close> only after the three
  earlier tests of the cascade have passed: without a score the stage is
  \<open>new_applications\<close>, without interviews \<open>cv_screening\<close>, without a task status
  \<open>ai_interview\<close>; with a task status set the decision wins over the task state. (A score
  equal to 0 is left aside here.)
\<close>

theorem decision_stage_after_earlier_checks:
  assumes "truthy_str (candidate_decision a)" and "total_score a \<noteq> Some 0"
  shows "getApplicationStage a =
     (if total_score a = None then new_applications
      else if interviews a = [] then cv_screening
      else if truthy_str (recruitment_task_status a) then decision
      else ai_interview)"
  using assms by (cases "total_score a") (auto simp: getApplicationStage_def)

theorem decision_stage_after_earlier_checks_witness:
  "truthy_str (candidate_decision app_offered_after_task)
   \<and> total_score app_offered_after_task \<noteq> Some 0
   \<and> getApplicationStage app_offered_after_task = decision"
  using decision_stage_after_earlier_checks [of app_offered_after_task]
  by (simp add: app_offered_after_task_def)

text \<open>
  An application scored 70, interviewed, with no task sent and the decision "offered" is
  derived as \<open>ai_interview\<close>.
\<close>

theorem decision_before_task_counterexample:
  "candidate_decision app_offered_without_task = Some ''offered''
   \<and> getApplicationStage app_offered_without_task = ai_interview"
  by (simp add: app_offered_without_task_def getApplicationStage_def)

text \<open>
  C3. A snapshot scored 0 with no interviews is derived as \<open>new_applications\<close>: the first
  test of the cascade, \<^verbatim>\<open>!application.total_score\<close>, holds for the number 0 as it does
  for \<^verbatim>\<open>null\<close>.
\<close>

theorem zero_score_stage:
  "total_score app_scored_zero = Some 0 \<and> interviews app_scored_zero = []
   \<and> getApplicationStage app_scored_zero = new_applications"
  by (simp add: app_scored_zero_def scored_app_def getApplicationStage_def)

text \<open>The first stage is derived for a missing score and for the score 0, and only then.\<close>

lemma new_applications_iff:
  "getApplicationStage a = new_applications \<longleftrightarrow> total_score a = None \<or> total_score a = Some 0"
  by (cases "total_score a") (auto simp: getApplicationStage_def)

text \<open>
  C4. For an application with two interviews (soft-skill mean 4, then a retake with mean 8)
  the ranking page reads the last interview and the detail page the first: the soft-skill
  scores are 80 and 40, the combined scores 80 and 66.
\<close>

theorem retake_scores_differ:
  "softSkills (calculateCombinedScore app_retake) = Num 80
   \<and> softSkills (calculateScores app_retake) = Num 40
   \<and> combined (calculateCombinedScore app_retake) = Num 80
   \<and> combined (calculateScores app_retake) = Num 66"
  by (simp add: app_retake_def calculateCombinedScore_def calculateScores_def scored_app_def
      interview_with_def assessment_of_def reduce_mean_def)

text \<open>
  With at most one interview the two pages read the same interview and agree.
\<close>

lemma single_interview_scores_agree:
  "length (interviews app) \<le> 1 \<Longrightarrow> calculateScores app = calculateCombinedScore app"
  by (cases "interviews app") (simp_all add: calculateScores_def calculateCombinedScore_def)

text \<open>
  \<^verbatim>\<open>getInterviewScore\<close> is \<^verbatim>\<open>null\<close> for a missing or empty assessment and the
  arithmetic mean otherwise.
\<close>

lemma foldl_add_sum_list: "foldl (\<lambda>a b. a + b) (s::real) xs = s + sum_list xs"
  by (induction xs arbitrary: s) simp_all

lemma getInterviewScore_mean:
  "getInterviewScore i =
     (case assessment_of (Some i) of
        None \<Rightarrow> None
      | Some a \<Rightarrow> if a = [] then None else Some (sum_list (map snd a) / real (length a)))"
  by (simp add: getInterviewScore_def Let_def foldl_add_sum_list split: option.splits)

lemma getInterviewScore_examples:
  "getInterviewScore (interview_with ''completed'' []) = None"
  "getInterviewScore (interview_with ''completed'' [(''a'', 10), (''b'', 0)]) = Some 5"
  "getInterviewScore \<lparr>status = ''scheduled'', ai_insights = None\<rparr> = None"
  by (simp_all add: getInterviewScore_def interview_with_def assessment_of_def)

text \<open>
  C5. For an interview whose assessment is the empty object \<^verbatim>\<open>getInterviewScore\<close>
  returns \<^verbatim>\<open>null\<close>, but the aggregation written inline in
  \<^verbatim>\<open>calculateCombinedScore\<close> and \<^verbatim>\<open>calculateScores\<close> divides 0 by 0: the
  soft-skill score and the combined score are \<^verbatim>\<open>NaN\<close>.
\<close>

theorem empty_assessment_nan:
  "getInterviewScore (interview_with ''completed'' []) = None
   \<and> softSkills (calculateCombinedScore app_empty_assessment) = NaN
   \<and> combined (calculateCombinedScore app_empty_assessment) = NaN
   \<and> softSkills (calculateScores app_empty_assessment) = NaN
   \<and> combined (calculateScores app_empty_assessment) = NaN"
  by (simp add: app_empty_assessment_def calculateCombinedScore_def calculateScores_def
      getInterviewScore_def scored_app_def interview_with_def assessment_of_def reduce_mean_def)

text \<open>
  On the ranking page a finite combined score is banded with the bounds 20 and 50 both
  inclusive below.
\<close>

lemma ranking_band_of_number:
  assumes "combined (calculateCombinedScore app) = Num c"
  shows "getRecommendationBadge app =
     (if c \<le> 20 then not_recommended else if c \<le> 50 then semi_recommended else recommended)"
  using assms by (simp add: getRecommendationBadge_def Let_def)

text \<open>
  C6. At a combined score of exactly 50 the detail page shows \<open>recommended\<close> where the
  ranking page shows \<open>semi_recommended\<close>; at exactly 20 the detail page shows
  \<open>semi_recommended\<close> where the ranking page shows \<open>not_recommended\<close>.
\<close>

theorem profile_band_boundaries:
  "combined (calculateScores app_combined_50) = Num 50
   \<and> profileRecommendation app_combined_50 = recommended
   \<and> getRecommendationBadge app_combined_50 = semi_recommended
   \<and> combined (calculateScores app_combined_20) = Num 20
   \<and> profileRecommendation app_combined_20 = semi_recommended
   \<and> getRecommendationBadge app_combined_20 = not_recommended"
  by (simp add: app_combined_50_def app_combined_20_def calculateCombinedScore_def
      calculateScores_def profileRecommendation_def getRecommendationBadge_def scored_app_def
      interview_with_def assessment_of_def reduce_mean_def)

text \<open>
  Whatever the task status, a combined score below 50 (or \<^verbatim>\<open>NaN\<close>) closes the task
  gate; a status other than the two written by the application leaves it open.
\<close>

lemma task_gate_below_50:
  "\<not> js_ge (combined (calculateCombinedScore app)) 50 \<Longrightarrow> \<not> canSend (getTaskStatus app)"
  by (simp add: getTaskStatus_def Let_def)

lemma task_gate_unknown_status:
  "js_ge (combined (calculateCombinedScore app)) 50 \<Longrightarrow>
   recruitment_task_status app \<notin> {Some ''task_sent'', Some ''task_completed''} \<Longrightarrow>
   canSend (getTaskStatus app)"
  by (auto simp: getTaskStatus_def Let_def)

text \<open>
  C7. For a task status in its documented domain (\<^verbatim>\<open>NULL\<close>, \<^verbatim>\<open>task_sent\<close>,
  \<^verbatim>\<open>task_completed\<close>) the recruitment task can be sent exactly when the combined score
  of the ranking page is at least 50 and the task status is \<^verbatim>\<open>null\<close>.
\<close>

theorem can_send_task_gate:
  assumes "recruitment_task_status app \<in> {None, Some ''task_sent'', Some ''task_completed''}"
  shows "canSend (getTaskStatus app) \<longleftrightarrow>
     js_ge (combined (calculateCombinedScore app)) 50 \<and> recruitment_task_status app = None"
  using assms by (auto simp: getTaskStatus_def Let_def)

theorem can_send_task_gate_witness:
  "recruitment_task_status app_combined_50 \<in> {None, Some ''task_sent'', Some ''task_completed''}
   \<and> combined (calculateCombinedScore app_combined_50) = Num 50
   \<and> canSend (getTaskStatus app_combined_50)"
  using can_send_task_gate [of app_combined_50]
  by (simp add: app_combined_50_def calculateCombinedScore_def scored_app_def
      interview_with_def assessment_of_def reduce_mean_def)

text \<open>
  C8. The "AI Interview" button is offered exactly when the technical score is present and
  at least 20 and the latest interview, if there is one, is not completed: the list of
  interviews is empty or the status of its last interview is not \<^verbatim>\<open>completed\<close>.
\<close>

theorem interview_gate_latest_not_completed:
  "isEligibleForInterview app \<longleftrightarrow>
     (\<exists>t. total_score app = Some t \<and> t \<ge> 20)
     \<and> (interviews app = [] \<or> status (last (interviews app)) \<noteq> ''completed'')"
  by (cases "total_score app") (auto simp: isEligibleForInterview_def getInterviewStatus_def Let_def)

theorem interview_gate_latest_not_completed_witness:
  "isEligibleForInterview app_scored_80 \<and> \<not> isEligibleForInterview app_scored_80_interviewed_8"
  using interview_gate_latest_not_completed [of app_scored_80]
    interview_gate_latest_not_completed [of app_scored_80_interviewed_8]
  by (simp add: app_scored_80_def app_scored_80_interviewed_8_def interview_with_def)

text \<open>
  An application scored 70 whose only interview is still \<^verbatim>\<open>scheduled\<close> is offered the
  button again.
\<close>

theorem scheduled_interview_still_eligible:
  "map status (interviews app_interview_scheduled) = [''scheduled'']
   \<and> isEligibleForInterview app_interview_scheduled"
  by (simp add: app_interview_scheduled_def scored_app_def isEligibleForInterview_def
      getInterviewStatus_def)

text \<open>
  C9. A technical score of 22 is reported as not qualifying: the qualification badge uses
  the bound 25, while the "AI Interview" button of the same card is offered from 20.
\<close>

theorem qualification_threshold_25:
  "getQualificationStatus (Some 22) = Nie_kwalifikuje_sie
   \<and> getQualificationStatus (Some 25) = Kwalifikuje_sie
   \<and> isEligibleForInterview app_scored_22"
  by (simp add: app_scored_22_def scored_app_def isEligibleForInterview_def
      getInterviewStatus_def)

text \<open>What the qualification badge reports for a present score.\<close>

lemma qualification_of_score:
  "getQualificationStatus (Some s) = Kwalifikuje_sie \<longleftrightarrow> s \<ge> 25"
  by simp

text \<open>The sort is a stable insertion: it permutes the rows and orders them by the comparator.\<close>

lemma mset_js_insert: "mset (js_insert cmp x xs) = add_mset x (mset xs)"
  by (induction xs) simp_all

lemma set_js_insert: "set (js_insert cmp x xs) = insert x (set xs)"
  by (induction xs) auto

lemma mset_js_sort: "mset (js_sort cmp xs) = mset xs"
  by (induction xs) (simp_all add: js_sort_def mset_js_insert)

lemma sorted_js_insert:
  "sorted_wrt (\<lambda>a b. or_zero (total_score b) \<le> or_zero (total_score a)) xs \<Longrightarrow>
   sorted_wrt (\<lambda>a b. or_zero (total_score b) \<le> or_zero (total_score a))
     (js_insert (\<lambda>a b. or_zero (total_score b) - or_zero (total_score a)) x xs)"
proof (induction xs)
  case Nil
  show ?case by simp
next
  case (Cons y ys)
  show ?case
  proof (cases "or_zero (total_score y) - or_zero (total_score x) \<le> 0")
    case True
    with Cons.prems show ?thesis by auto
  next
    case False
    with Cons show ?thesis by (auto simp: set_js_insert)
  qed
qed

lemma sorted_sortedData:
  "sorted_wrt (\<lambda>a b. or_zero (total_score b) \<le> or_zero (total_score a)) (sortedData xs)"
  by (induction xs) (simp_all add: sortedData_def js_sort_def sorted_js_insert)

text \<open>
  Rows with the same technical score keep their fetched order, and the sort commutes with
  any change of the rows that leaves the comparator's value untouched.
\<close>

lemma filter_js_insert:
  "filter (\<lambda>a. or_zero (total_score a) = k)
     (js_insert (\<lambda>a b. or_zero (total_score b) - or_zero (total_score a)) x xs)
   = filter (\<lambda>a. or_zero (total_score a) = k) (x # xs)"
  by (induction xs) auto

lemma filter_sortedData:
  "filter (\<lambda>a. or_zero (total_score a) = k) (sortedData xs)
   = filter (\<lambda>a. or_zero (total_score a) = k) xs"
proof (induction xs)
  case Nil
  show ?case by (simp add: sortedData_def js_sort_def)
next
  case (Cons x xs)
  have "sortedData (x # xs)
      = js_insert (\<lambda>a b. or_zero (total_score b) - or_zero (total_score a)) x (sortedData xs)"
    by (simp add: sortedData_def js_sort_def)
  with Cons.IH show ?case by (simp add: filter_js_insert)
qed

lemma js_insert_map:
  assumes "\<And>a b. cmp (g a) (g b) = cmp a b"
  shows "js_insert cmp (g x) (map g xs) = map g (js_insert cmp x xs)"
  by (induction xs) (simp_all add: assms)

lemma js_sort_map:
  assumes "\<And>a b. cmp (g a) (g b) = cmp a b"
  shows "js_sort cmp (map g xs) = map g (js_sort cmp xs)"
proof (induction xs)
  case Nil
  show ?case by (simp add: js_sort_def)
next
  case (Cons x xs)
  have "js_sort cmp (map g (x # xs)) = js_insert cmp (g x) (js_sort cmp (map g xs))"
    by (simp add: js_sort_def)
  also have "\<dots> = js_insert cmp (g x) (map g (js_sort cmp xs))"
    by (simp add: Cons.IH)
  also have "\<dots> = map g (js_insert cmp x (js_sort cmp xs))"
    by (rule js_insert_map) (rule assms)
  finally show ?case by (simp add: js_sort_def)
qed

lemma sortedData_interviews:
  "sortedData (map (\<lambda>a. a\<lparr>interviews := f a\<rparr>) xs)
   = map (\<lambda>a. a\<lparr>interviews := f a\<rparr>) (sortedData xs)"
  unfolding sortedData_def by (rule js_sort_map) simp

text \<open>
  C10. The ranking list is the fetched rows ordered by the technical score
  (\<^verbatim>\<open>total_score || 0\<close>), descending: of any two rows of the list the earlier one has
  a technical score at least that of the later one, the list holds the fetched rows, each as
  often as fetched, and rows with equal technical score stay in the order in which they were
  fetched. The interviews, and with them the combined score, have no influence on the order:
  replacing the interviews of the rows in any way and sorting gives the same arrangement.
\<close>

theorem ranking_sorted_by_technical:
  "sorted_wrt (\<lambda>a b. or_zero (total_score b) \<le> or_zero (total_score a)) (sortedData xs)
   \<and> mset (sortedData xs) = mset xs
   \<and> filter (\<lambda>a. or_zero (total_score a) = k) (sortedData xs)
       = filter (\<lambda>a. or_zero (total_score a) = k) xs
   \<and> sortedData (map (\<lambda>a. a\<lparr>interviews := f a\<rparr>) xs)
       = map (\<lambda>a. a\<lparr>interviews := f a\<rparr>) (sortedData xs)"
proof -
  have "mset (sortedData xs) = mset xs"
    by (simp add: sortedData_def mset_js_sort)
  with sorted_sortedData [of xs] filter_sortedData [of k xs] sortedData_interviews [of f xs]
  show ?thesis by blast
qed

text \<open>
  Two candidates with the technical score 80, one without interview (combined 52) and one
  with a soft-skill mean of 8 (combined 80), are listed in the order in which they were
  fetched, whichever comes first.
\<close>

theorem ranking_sorted_by_technical_witness:
  "sortedData [app_scored_80, app_scored_80_interviewed_8]
     = [app_scored_80, app_scored_80_interviewed_8]
   \<and> sortedData [app_scored_80_interviewed_8, app_scored_80]
     = [app_scored_80_interviewed_8, app_scored_80]"
proof -
  have keys: "or_zero (total_score app_scored_80) = 80"
    "or_zero (total_score app_scored_80_interviewed_8) = 80"
    by (simp_all add: app_scored_80_def app_scored_80_interviewed_8_def)
  have tie: "sortedData xs = xs"
    if "set xs \<subseteq> {app_scored_80, app_scored_80_interviewed_8}" for xs
  proof -
    from ranking_sorted_by_technical [of xs 80]
    have m: "mset (sortedData xs) = mset xs"
      and f: "filter (\<lambda>a. or_zero (total_score a) = 80) (sortedData xs)
            = filter (\<lambda>a. or_zero (total_score a) = 80) xs"
      by blast+
    from m have "set (sortedData xs) = set xs" by (rule mset_eq_setD)
    with that keys have "\<forall>a \<in> set (sortedData xs). or_zero (total_score a) = 80"
      and "\<forall>a \<in> set xs. or_zero (total_score a) = 80" by auto
    then have "filter (\<lambda>a. or_zero (total_score a) = 80) (sortedData xs) = sortedData xs"
      and "filter (\<lambda>a. or_zero (total_score a) = 80) xs = xs" by simp_all
    with f show ?thesis by simp
  qed
  show ?thesis by (simp add: tie)
qed

text \<open>
  A candidate scored 80 without interview (combined 52) is listed before a candidate scored
  70 with a soft-skill mean of 10 (combined 80.5), and, when fetched first, before an
  otherwise equal candidate scored 80 with a soft-skill mean of 8 (combined 80).
\<close>

theorem ranking_not_by_combined:
  "sortedData [app_scored_80, app_scored_70_interviewed_10]
     = [app_scored_80, app_scored_70_interviewed_10]
   \<and> combined (calculateCombinedScore app_scored_80) = Num 52
   \<and> combined (calculateCombinedScore app_scored_70_interviewed_10) = Num 80.5
   \<and> sortedData [app_scored_80, app_scored_80_interviewed_8]
     = [app_scored_80, app_scored_80_interviewed_8]
   \<and> combined (calculateCombinedScore app_scored_80_interviewed_8) = Num 80"
  by (simp add: sortedData_def js_sort_def app_scored_80_def app_scored_70_interviewed_10_def
      app_scored_80_interviewed_8_def
      scored_app_def calculateCombinedScore_def interview_with_def assessment_of_def
      reduce_mean_def)

end
